theory Spec2Isabelle
  imports Complex_Main "HOL-Library.Word"
begin

unbundle bit_operations_syntax

section \<open>Values, exceptions and the environment\<close>

text \<open>
  The bot (\<^verbatim>\<open>src/bot1.py\<close> and \<^verbatim>\<open>src/bot/bot1.py\<close>, class \<^verbatim>\<open>PiggyGameBot\<close>) reads
  JSON files into dynamically typed values and drives two HTTP endpoints. A value returned by
  \<^verbatim>\<open>json.load\<close> is a \<open>json\<close>; an object is an association list read with \<open>map_of\<close>
  (the dict that \<^verbatim>\<open>json.load\<close> built). A number with a fraction or an exponent is a
  \<open>JFloat\<close> (finite values only).
\<close>

datatype json =
    JNull
  | JBool bool
  | JInt int
  | JFloat rat
  | JStr string
  | JList "json list"
  | JObj "(string \<times> json) list"

text \<open>
  The subclasses of \<^verbatim>\<open>Exception\<close> the code can meet; \<open>LibraryError\<close> is whatever
  \<^verbatim>\<open>fake_useragent\<close> raises. \<^verbatim>\<open>sys.exit(n)\<close> raises SystemExit, which no
  \<^verbatim>\<open>except Exception\<close> catches: what can leave the constructor is a \<open>raised\<close>.
\<close>

datatype exn =
    AttributeError string
  | KeyError string
  | TypeError
  | ValueError
  | IndexError
  | OverflowError
  | OSError
  | LibraryError

datatype raised = Exc exn | SystemExit int

text \<open>\<^verbatim>\<open>d.get(key, default)\<close>: only a dict has the method.\<close>

definition py_get :: "json \<Rightarrow> string \<Rightarrow> json \<Rightarrow> exn + json" where
  "py_get d key dflt =
     (case d of
        JObj kvs \<Rightarrow> (case map_of kvs key of Some v \<Rightarrow> Inr v | None \<Rightarrow> Inr dflt)
      | _ \<Rightarrow> Inl (AttributeError ''get''))"

text \<open>\<^verbatim>\<open>d[key]\<close> with a string key: a dict without the key raises KeyError.\<close>

definition py_item :: "json \<Rightarrow> string \<Rightarrow> exn + json" where
  "py_item d key =
     (case d of
        JObj kvs \<Rightarrow> (case map_of kvs key of Some v \<Rightarrow> Inr v | None \<Rightarrow> Inl (KeyError key))
      | _ \<Rightarrow> Inl TypeError)"

text \<open>Truth value of a value in an \<^verbatim>\<open>if\<close>.\<close>

definition truthy :: "json \<Rightarrow> bool" where
  "truthy v =
     (case v of
        JNull \<Rightarrow> False
      | JBool b \<Rightarrow> b
      | JInt n \<Rightarrow> n \<noteq> 0
      | JFloat r \<Rightarrow> r \<noteq> 0
      | JStr s \<Rightarrow> s \<noteq> []
      | JList xs \<Rightarrow> xs \<noteq> []
      | JObj kvs \<Rightarrow> kvs \<noteq> [])"

text \<open>
  \<^verbatim>\<open>for x in v\<close>: a list gives its elements, a string its characters, a dict its keys;
  anything else is not iterable.
\<close>

definition py_iter :: "json \<Rightarrow> exn + json list" where
  "py_iter v =
     (case v of
        JList xs \<Rightarrow> Inr xs
      | JStr s \<Rightarrow> Inr (map (\<lambda>c. JStr [c]) s)
      | JObj kvs \<Rightarrow> Inr (map JStr (remdups (map fst kvs)))
      | _ \<Rightarrow> Inl TypeError)"

text \<open>
  A value used where an integer is required (\<^verbatim>\<open>operator.index\<close>, as
  \<^verbatim>\<open>range\<close> and, from Python 3.12 on, \<^verbatim>\<open>random.randrange\<close> do): an int, or a bool
  (\<^verbatim>\<open>True\<close> is 1).
\<close>

definition as_index :: "json \<Rightarrow> exn + int" where
  "as_index v =
     (case v of
        JInt n \<Rightarrow> Inr n
      | JBool b \<Rightarrow> Inr (if b then 1 else 0)
      | _ \<Rightarrow> Inl TypeError)"

text \<open>
  The argument of \<^verbatim>\<open>time.sleep\<close>: a number of seconds. A negative one raises
  ValueError, one beyond what fits 64 bits of nanoseconds raises OverflowError, anything
  that is not a number raises TypeError.
\<close>

definition sleep_seconds :: "rat \<Rightarrow> exn + rat" where
  "sleep_seconds d =
     (if d < 0 then Inl ValueError
      else if 2 ^ 63 - 1 < d * 10 ^ 9 then Inl OverflowError
      else Inr d)"

definition sleep_arg :: "json \<Rightarrow> exn + rat" where
  "sleep_arg v =
     (case v of
        JInt n \<Rightarrow> sleep_seconds (of_int n)
      | JBool b \<Rightarrow> Inr (if b then 1 else 0)
      | JFloat r \<Rightarrow> sleep_seconds r
      | _ \<Rightarrow> Inl TypeError)"

text \<open>
  What the program does to the outside world is a trace of events. A line of the log is
  recorded with its level, its text (here in English) and the values formatted into it, in
  their order (the account's description and the text of a caught exception apart); a POST
  with the request and the outcome it met; a \<^verbatim>\<open>time.sleep\<close> with the place that
  called it. An f-string whose values are not known to be strings is kept as its fragments.
\<close>

datatype level = DEBUG | INFO | WARNING | ERROR

datatype payload = GameCode string | Score int

datatype fragment = Lit string | Val json

record request =
  url :: string
  user_agent :: string
  cookie :: "fragment list"
  body :: payload
  proxy :: "(string \<times> string) list option"

datatype http_outcome = Response nat | NetworkError

datatype sleep_site = GameDelay | AccountJitter | SchedulerPoll

datatype event =
    Log level string "json list"
  | Print string
  | Post request http_outcome
  | Sleep sleep_site rat

text \<open>
  What the outside world holds and answers. A JSON file is missing (\<^verbatim>\<open>open\<close> raises
  FileNotFoundError), malformed (\<^verbatim>\<open>json.load\<close> raises JSONDecodeError) or parsed. A
  text file is absent, present but unreadable, or a list of lines. Each kind of outside
  answer is a sequence indexed by how many were consumed so far:
  the outcome of the k-th POST (a status code, or an exception such as a timeout), the k-th
  raw draw of the \<^verbatim>\<open>random\<close> module, the 16 random bytes of the k-th
  \<^verbatim>\<open>uuid.uuid4()\<close>, the k-th reading of \<^verbatim>\<open>int(time.time() * 1000)\<close> (the clock is
  not before the epoch), the k-th evaluation of \<^verbatim>\<open>fake_useragent\<close>'s
  \<^verbatim>\<open>UserAgent().random\<close>, and whether the scheduled job is due at the k-th poll of the
  scheduler. \<open>accepts_level\<close> tells which names the \<^verbatim>\<open>logging\<close> module takes as a
  level, \<open>ua_ctor\<close> whether \<^verbatim>\<open>UserAgent()\<close> raises.
\<close>

datatype json_file = Missing | Malformed | Parsed json

datatype text_file = NoFile | Unreadable | Lines "string list"

record env =
  config_file :: json_file
  accounts_file :: json_file
  proxy_file :: text_file
  ua_file :: text_file
  ua_ctor :: "exn option"
  accepts_level :: "string \<Rightarrow> bool"
  http :: "nat \<Rightarrow> request \<Rightarrow> http_outcome"
  raw_random :: "nat \<Rightarrow> nat"
  uuid_bytes :: "nat \<Rightarrow> 128 word"
  clock_ms :: "nat \<Rightarrow> nat"
  fake_ua :: "nat \<Rightarrow> exn + string"
  job_due :: "nat \<Rightarrow> bool"

text \<open>
  The mutable state: how many outside answers of each kind were consumed, the attribute
  \<^verbatim>\<open>self.full_user_agents\<close> of \<^verbatim>\<open>src/bot1.py\<close> (\<open>None\<close> while
  \<^verbatim>\<open>hasattr\<close> is false), and the trace.
\<close>

record world =
  posts :: nat
  draws :: nat
  uuids :: nat
  clock_reads :: nat
  ua_reads :: nat
  full_user_agents :: "string list option"
  trace :: "event list"

definition emit :: "event \<Rightarrow> world \<Rightarrow> world" where
  "emit ev w = w\<lparr>trace := trace w @ [ev]\<rparr>"

definition logger :: "level \<Rightarrow> string \<Rightarrow> json list \<Rightarrow> world \<Rightarrow> world" where
  "logger lvl msg args w = emit (Log lvl msg args) w"

text \<open>
  An account as \<^verbatim>\<open>load_accounts\<close> builds it: a dict with exactly these four keys.
  The two source files differ in \<^verbatim>\<open>get_random_user_agent\<close> (and in the name of the
  accounts file); the bot carries which one it is.
\<close>

record account =
  name :: json
  session_token :: json
  cookies :: json
  description :: json

datatype source_file = Bot1 | Bot_Bot1

record bot =
  source :: source_file
  config :: json
  accounts :: "account list"
  proxies :: "string list"

section \<open>Loading the files and constructing the bot\<close>

text \<open>
  \<^verbatim>\<open>load_config\<close>. Both handlers begin with \<^verbatim>\<open>self.logger.error(...)\<close>; the argument
  \<open>has_logger\<close> says whether the attribute \<^verbatim>\<open>self.logger\<close> exists when the method
  runs. Without it the attribute access raises AttributeError inside the handler, and
  \<^verbatim>\<open>sys.exit(1)\<close> on the next line is not reached.
\<close>

definition load_config :: "bool \<Rightarrow> env \<Rightarrow> world \<Rightarrow> (raised + json) \<times> world" where
  "load_config has_logger e w =
     (case config_file e of
        Parsed cfg \<Rightarrow> (Inr cfg, w)
      | Missing \<Rightarrow>
          if has_logger then (Inl (SystemExit 1), logger ERROR ''config file does not exist'' [] w)
          else (Inl (Exc (AttributeError ''logger'')), w)
      | Malformed \<Rightarrow>
          if has_logger then (Inl (SystemExit 1), logger ERROR ''config file format error'' [] w)
          else (Inl (Exc (AttributeError ''logger'')), w))"

text \<open>
  The loop of \<^verbatim>\<open>load_accounts\<close> over \<^verbatim>\<open>accounts_data.get('accounts', [])\<close>. An
  exception leaves the loop at once and the accounts gathered so far are lost with it.
\<close>

fun collect_accounts :: "json list \<Rightarrow> account list \<Rightarrow> exn + account list" where
  "collect_accounts [] accs = Inr accs"
| "collect_accounts (account # rest) accs =
     (case py_get account ''enabled'' (JBool True) of
        Inl ex \<Rightarrow> Inl ex
      | Inr en \<Rightarrow>
          if truthy en then
            (case py_item account ''name'' of
               Inl ex \<Rightarrow> Inl ex
             | Inr n \<Rightarrow>
            (case py_item account ''session_token'' of
               Inl ex \<Rightarrow> Inl ex
             | Inr t \<Rightarrow>
            (case py_get account ''cookies'' (JStr []) of
               Inl ex \<Rightarrow> Inl ex
             | Inr c \<Rightarrow>
            (case py_get account ''description'' (JStr []) of
               Inl ex \<Rightarrow> Inl ex
             | Inr d \<Rightarrow>
                 collect_accounts rest
                   (accs @ [\<lparr>name = n, session_token = t, cookies = c, description = d\<rparr>])))))
          else collect_accounts rest accs)"

text \<open>
  \<^verbatim>\<open>load_accounts\<close>: FileNotFoundError, JSONDecodeError and KeyError are caught, each
  with a printed line and an empty list; any other exception leaves the method.
\<close>

definition load_accounts :: "env \<Rightarrow> world \<Rightarrow> (exn + account list) \<times> world" where
  "load_accounts e w =
     (case accounts_file e of
        Missing \<Rightarrow> (Inr [], emit (Print ''error: accounts file does not exist'') w)
      | Malformed \<Rightarrow> (Inr [], emit (Print ''warning: accounts file format error'') w)
      | Parsed accounts_data \<Rightarrow>
          (case py_get accounts_data ''accounts'' (JList []) of
             Inl ex \<Rightarrow> (Inl ex, w)
           | Inr listed \<Rightarrow>
          (case py_iter listed of
             Inl ex \<Rightarrow> (Inl ex, w)
           | Inr items \<Rightarrow>
          (case collect_accounts items [] of
             Inl (KeyError k) \<Rightarrow>
               (Inr [], emit (Print ''warning: accounts file format error'') w)
           | Inl ex \<Rightarrow> (Inl ex, w)
           | Inr accs \<Rightarrow> (Inr accs, w)))))"

text \<open>\<^verbatim>\<open>str.strip()\<close> removes white space at both ends.\<close>

definition is_space :: "char \<Rightarrow> bool" where
  "is_space c = (of_char c \<in> set [9, 10, 11, 12, 13, 28, 29, 30, 31, 32 :: nat])"

definition strip :: "string \<Rightarrow> string" where
  "strip s = rev (dropWhile is_space (rev (dropWhile is_space s)))"

text \<open>\<^verbatim>\<open>load_proxies\<close>: only FileNotFoundError is caught.\<close>

definition proxy_line :: "string \<Rightarrow> bool" where
  "proxy_line line = (line \<noteq> [] \<and> hd line \<noteq> CHR ''#'')"

definition load_proxies :: "env \<Rightarrow> world \<Rightarrow> (exn + string list) \<times> world" where
  "load_proxies e w =
     (case proxy_file e of
        NoFile \<Rightarrow> (Inr [], emit (Print ''warning: proxy.txt does not exist'') w)
      | Unreadable \<Rightarrow> (Inl OSError, w)
      | Lines lines \<Rightarrow> (Inr (filter proxy_line (map strip lines)), w))"

text \<open>
  \<^verbatim>\<open>setup_logging\<close>: the level is \<^verbatim>\<open>getattr(logging, self.config.get('log_level', 'INFO'))\<close>.
  Opening the log file is taken to succeed.
\<close>

definition setup_logging :: "env \<Rightarrow> json \<Rightarrow> exn + unit" where
  "setup_logging e cfg =
     (case py_get cfg ''log_level'' (JStr ''INFO'') of
        Inl ex \<Rightarrow> Inl ex
      | Inr (JStr nm) \<Rightarrow> if accepts_level e nm then Inr () else Inl (AttributeError nm)
      | Inr _ \<Rightarrow> Inl TypeError)"

text \<open>
  \<^verbatim>\<open>__init__\<close>: the five steps in the order of the source. \<^verbatim>\<open>load_config\<close> runs
  first, when no attribute \<^verbatim>\<open>logger\<close> has been set (the class has none either):
  \<^verbatim>\<open>setup_logging\<close>, which creates it, is the last step.
\<close>

definition init :: "source_file \<Rightarrow> env \<Rightarrow> world \<Rightarrow> (raised + bot) \<times> world" where
  "init src e w =
     (case load_config False e w of
        (Inl r, w1) \<Rightarrow> (Inl r, w1)
      | (Inr cfg, w1) \<Rightarrow>
     (case load_accounts e w1 of
        (Inl ex, w2) \<Rightarrow> (Inl (Exc ex), w2)
      | (Inr accs, w2) \<Rightarrow>
     (case load_proxies e w2 of
        (Inl ex, w3) \<Rightarrow> (Inl (Exc ex), w3)
      | (Inr prx, w3) \<Rightarrow>
     (case ua_ctor e of
        Some ex \<Rightarrow> (Inl (Exc ex), w3)
      | None \<Rightarrow>
     (case setup_logging e cfg of
        Inl ex \<Rightarrow> (Inl (Exc ex), w3)
      | Inr u \<Rightarrow>
          (Inr \<lparr>source = src, config = cfg, accounts = accs, proxies = prx\<rparr>, w3))))))"

section \<open>Random choices, user agents and game codes\<close>

text \<open>
  \<^verbatim>\<open>random.choice\<close>, \<^verbatim>\<open>random.randint\<close> and \<^verbatim>\<open>random.uniform\<close>, each from one raw
  draw. \<^verbatim>\<open>random.random()\<close> is a multiple of \<open>2\<^sup>-\<^sup>5\<^sup>3\<close> in \<open>[0, 1)\<close>;
  \<^verbatim>\<open>uniform(a, b)\<close> is \<^verbatim>\<open>a + (b - a) * random()\<close>, here without rounding.
\<close>

definition choice :: "env \<Rightarrow> 'a list \<Rightarrow> world \<Rightarrow> (exn + 'a) \<times> world" where
  "choice e xs w =
     (if xs = [] then (Inl IndexError, w)
      else (Inr (xs ! (raw_random e (draws w) mod length xs)), w\<lparr>draws := Suc (draws w)\<rparr>))"

definition randint :: "env \<Rightarrow> json \<Rightarrow> json \<Rightarrow> world \<Rightarrow> (exn + int) \<times> world" where
  "randint e a b w =
     (case as_index a of
        Inl ex \<Rightarrow> (Inl ex, w)
      | Inr lo \<Rightarrow>
     (case as_index b of
        Inl ex \<Rightarrow> (Inl ex, w)
      | Inr hi \<Rightarrow>
          if hi < lo then (Inl ValueError, w)
          else (Inr (lo + int (raw_random e (draws w) mod nat (hi - lo + 1))),
                w\<lparr>draws := Suc (draws w)\<rparr>)))"

definition random_unit :: "env \<Rightarrow> world \<Rightarrow> rat \<times> world" where
  "random_unit e w =
     (of_nat (raw_random e (draws w) mod 2 ^ 53) / 2 ^ 53, w\<lparr>draws := Suc (draws w)\<rparr>)"

definition uniform :: "env \<Rightarrow> rat \<Rightarrow> rat \<Rightarrow> world \<Rightarrow> rat \<times> world" where
  "uniform e a b w = (case random_unit e w of (u, w1) \<Rightarrow> (a + (b - a) * u, w1))"

text \<open>\<^verbatim>\<open>get_random_proxy\<close>: no proxy when the list is empty.\<close>

definition get_random_proxy ::
  "bot \<Rightarrow> env \<Rightarrow> world \<Rightarrow> (exn + (string \<times> string) list option) \<times> world" where
  "get_random_proxy b e w =
     (if proxies b = [] then (Inr None, w)
      else (case choice e (proxies b) w of
              (Inl ex, w1) \<Rightarrow> (Inl ex, w1)
            | (Inr proxy_url, w1) \<Rightarrow>
                (Inr (Some [(''http'', proxy_url), (''https'', proxy_url)]), w1)))"

text \<open>\<^verbatim>\<open>self.user_agent.random\<close>, the call into \<^verbatim>\<open>fake_useragent\<close>.\<close>

definition ua_random :: "env \<Rightarrow> world \<Rightarrow> (exn + string) \<times> world" where
  "ua_random e w = (fake_ua e (ua_reads w), w\<lparr>ua_reads := Suc (ua_reads w)\<rparr>)"

text \<open>
  The list in \<^verbatim>\<open>get_random_user_agent\<close> of \<^verbatim>\<open>src/bot/bot1.py\<close>. It has 50 entries: no
  comma separates the 21st and the 22nd string literal of the source, which Python joins.
\<close>

definition user_agents :: "string list" where
  "user_agents = [
      ''Mozilla/5.0 (Macintosh; Intel Mac OS X 10_15_7) AppleWebKit/537.36 (KHTML, like Gecko) Chrome/141.0.0.0 Safari/537.36'',
      ''Mozilla/5.0 (Windows NT 10.0; Win64; x64) AppleWebKit/537.36 (KHTML, like Gecko) Chrome/124.0.0.0 Safari/537.36'',
      ''Mozilla/5.0 (Windows NT 10.0; Win64; x64; rv:115.0) Gecko/20100101 Firefox/115.0'',
      ''Mozilla/5.0 (Windows NT 6.3; Win64; x64) AppleWebKit/537.36 (KHTML, like Gecko) Chrome/121.0.6167.86 Safari/537.36'',
      ''Mozilla/5.0 (Windows NT 6.1; WOW64; Trident/7.0; rv:11.0) like Gecko'',
      ''Mozilla/5.0 (Windows NT 10.0; WOW64) AppleWebKit/537.36 (KHTML, like Gecko) Chrome/120.0.6099.110 Safari/537.36'',
      ''Mozilla/5.0 (Windows NT 10.0; Win64; x64) AppleWebKit/537.36 (KHTML, like Gecko) Edge/119.0.2151.44 Safari/537.36'',
      ''Mozilla/5.0 (Windows NT 10.0; Win64; x64; rv:109.0) Gecko/20100101 Firefox/109.0'',
      ''Mozilla/5.0 (Windows NT 6.1; Win64; x64) AppleWebKit/537.36 (KHTML, like Gecko) Chrome/118.0.0.0 Safari/537.36'',
      ''Mozilla/5.0 (Windows NT 10.0; Win64; x64) AppleWebKit/605.1.15 (KHTML, like Gecko) Version/17.0 Safari/605.1.15'',
      ''Mozilla/5.0 (Windows NT 10.0; Win64; x64) AppleWebKit/537.36 (KHTML, like Gecko) Chrome/125.0.6422.76 YaBrowser/24.1.0.0 Safari/537.36'',
      ''Mozilla/5.0 (Macintosh; Intel Mac OS X 10_15_7) AppleWebKit/537.36 (KHTML, like Gecko) Chrome/124.0.0.0 Safari/537.36'',
      ''Mozilla/5.0 (Macintosh; Intel Mac OS X 12_6_3; rv:115.0) Gecko/20100101 Firefox/115.0'',
      ''Mozilla/5.0 (Macintosh; Intel Mac OS X 11_7_10) AppleWebKit/605.1.15 (KHTML, like Gecko) Version/17.1 Safari/605.1.15'',
      ''Mozilla/5.0 (Macintosh; Intel Mac OS X 10_14_6) AppleWebKit/537.36 (KHTML, like Gecko) Chrome/122.0.6170.45 Safari/537.36'',
      ''Mozilla/5.0 (Macintosh; Intel Mac OS X 13_4_1) AppleWebKit/605.1.15 (KHTML, like Gecko) Version/17.0 Safari/605.1.15'',
      ''Mozilla/5.0 (Macintosh; Intel Mac OS X 10_13_6; rv:110.0) Gecko/20100101 Firefox/110.0'',
      ''Mozilla/5.0 (Macintosh; Intel Mac OS X 12_1) AppleWebKit/537.36 (KHTML, like Gecko) Chrome/120.0.6099.129 Safari/537.36'',
      ''Mozilla/5.0 (Macintosh; Intel Mac OS X 10_14_5) AppleWebKit/537.36 (KHTML, like Gecko) Chrome/118.0.5993.169 Safari/537.36'',
      ''Mozilla/5.0 (Macintosh; Intel Mac OS X 13_2) AppleWebKit/537.36 (KHTML, like Gecko) Chrome/125.0.6422.43 Safari/537.36'',
      ''Mozilla/5.0 (Macintosh; Intel Mac OS X 11_2_3; rv:102.0) Gecko/20100101 Firefox/102.0Mozilla/5.0 (Macintosh; Intel Mac OS X 10_15_7) AppleWebKit/605.1.15 (KHTML, like Gecko) Version/16.1 Safari/605.1.15'',
      ''Mozilla/5.0 (iPhone; CPU iPhone OS 16_2 like Mac OS X) AppleWebKit/605.1.15 (KHTML, like Gecko) Version/16.2 Mobile/15E148 Safari/604.1'',
      ''Mozilla/5.0 (Macintosh; Intel Mac OS X 12_3) AppleWebKit/605.1.15 (KHTML, like Gecko) Version/15.4 Safari/605.1.15'',
      ''Mozilla/5.0 (iPad; CPU OS 15_1 like Mac OS X) AppleWebKit/605.1.15 (KHTML, like Gecko) Version/15.1 Mobile/15E148 Safari/604.1'',
      ''Mozilla/5.0 (Macintosh; Intel Mac OS X 11_5_2) AppleWebKit/605.1.15 (KHTML, like Gecko) Version/14.1 Safari/605.1.15'',
      ''Mozilla/5.0 (iPhone; CPU iPhone OS 14_7 like Mac OS X) AppleWebKit/605.1.15 (KHTML, like Gecko) Version/14.7 Mobile/15E148 Safari/604.1'',
      ''Mozilla/5.0 (Macintosh; Intel Mac OS X 10_14_6) AppleWebKit/605.1.15 (KHTML, like Gecko) Version/13.1 Safari/605.1.15'',
      ''Mozilla/5.0 (iPad; CPU OS 14_5 like Mac OS X) AppleWebKit/605.1.15 (KHTML, like Gecko) Version/14.5 Mobile/15E148 Safari/604.1'',
      ''Mozilla/5.0 (Macintosh; Intel Mac OS X 10_13_6) AppleWebKit/605.1.15 (KHTML, like Gecko) Version/12.1 Safari/605.1.15'',
      ''Mozilla/5.0 (iPhone; CPU iPhone OS 13_6 like Mac OS X) AppleWebKit/605.1.15 (KHTML, like Gecko) Version/13.6 Mobile/15E148 Safari/604.1'',
      ''Mozilla/5.0 (Macintosh; Intel Mac OS X 10_12_6) AppleWebKit/605.1.15 (KHTML, like Gecko) Version/12.0 Safari/605.1.15'',
      ''Mozilla/5.0 (iPad; CPU OS 13_3 like Mac OS X) AppleWebKit/605.1.15 (KHTML, like Gecko) Version/13.3 Mobile/15E148 Safari/604.1'',
      ''Mozilla/5.0 (iPhone; CPU iPhone OS 12_4 like Mac OS X) AppleWebKit/605.1.15 (KHTML, like Gecko) Version/12.4 Mobile/15E148 Safari/604.1'',
      ''Mozilla/5.0 (Macintosh; Intel Mac OS X 13_0) AppleWebKit/605.1.15 (KHTML, like Gecko) Version/16.0 Safari/605.1.15'',
      ''Mozilla/5.0 (iPad; CPU OS 16_1 like Mac OS X) AppleWebKit/605.1.15 (KHTML, like Gecko) Version/16.1 Mobile/15E148 Safari/604.1'',
      ''Mozilla/5.0 (iPhone; CPU iPhone OS 15_5 like Mac OS X) AppleWebKit/605.1.15 (KHTML, like Gecko) Version/15.5 Mobile/15E148 Safari/604.1'',
      ''Mozilla/5.0 (Macintosh; Intel Mac OS X 12_6) AppleWebKit/605.1.15 (KHTML, like Gecko) Version/15.6 Safari/605.1.15'',
      ''Mozilla/5.0 (Macintosh; Intel Mac OS X 11_4) AppleWebKit/605.1.15 (KHTML, like Gecko) Version/14.0 Safari/605.1.15'',
      ''Mozilla/5.0 (iPhone; CPU iPhone OS 11_4 like Mac OS X) AppleWebKit/605.1.15 (KHTML, like Gecko) Version/11.4 Mobile/15E148 Safari/604.1'',
      ''Mozilla/5.0 (Macintosh; Intel Mac OS X 10_15_3) AppleWebKit/605.1.15 (KHTML, like Gecko) Version/13.0 Safari/605.1.15'',
      ''Mozilla/5.0 (iPad; CPU OS 12_5 like Mac OS X) AppleWebKit/605.1.15 (KHTML, like Gecko) Version/12.5 Mobile/15E148 Safari/604.1'',
      ''Mozilla/5.0 (iPhone; CPU iPhone OS 10_3_3 like Mac OS X) AppleWebKit/602.1.50 (KHTML, like Gecko) Version/10.0 Mobile/14G60 Safari/602.1'',
      ''Mozilla/5.0 (Macintosh; Intel Mac OS X 10_11_6) AppleWebKit/601.7.8 (KHTML, like Gecko) Version/11.1 Safari/601.7.8'',
      ''Mozilla/5.0 (iPad; CPU OS 11_4 like Mac OS X) AppleWebKit/604.5.6 (KHTML, like Gecko) Version/11.4 Mobile/15E148 Safari/604.1'',
      ''Mozilla/5.0 (Macintosh; Intel Mac OS X 10_10_5) AppleWebKit/600.8.9 (KHTML, like Gecko) Version/10.1 Safari/600.8.9'',
      ''Mozilla/5.0 (Macintosh; Intel Mac OS X 10_9_5) AppleWebKit/537.85.17 (KHTML, like Gecko) Version/9.1 Safari/537.85.17'',
      ''Mozilla/5.0 (iPhone; CPU iPhone OS 9_3_5 like Mac OS X) AppleWebKit/601.1.46 (KHTML, like Gecko) Version/9.3 Mobile/13G36 Safari/601.1'',
      ''Mozilla/5.0 (iPad; CPU OS 10_3_3 like Mac OS X) AppleWebKit/603.3.8 (KHTML, like Gecko) Version/10.3 Mobile/14G60 Safari/603.3.8'',
      ''Mozilla/5.0 (Macintosh; Intel Mac OS X 10_8_5) AppleWebKit/536.30.1 (KHTML, like Gecko) Version/8.0 Safari/536.30.1'',
      ''Mozilla/5.0 (Macintosh; Intel Mac OS X 10_7_5) AppleWebKit/534.57.2 (KHTML, like Gecko) Version/7.1 Safari/534.57.2''
   ]"

text \<open>
  \<^verbatim>\<open>get_random_user_agent\<close> of \<^verbatim>\<open>src/bot/bot1.py\<close>: the library's answer, and a choice
  from the list above when the library raises.
\<close>

definition get_random_user_agent_builtin :: "env \<Rightarrow> world \<Rightarrow> (exn + string) \<times> world" where
  "get_random_user_agent_builtin e w =
     (case ua_random e w of
        (Inr ua, w1) \<Rightarrow> (Inr ua, w1)
      | (Inl ex, w1) \<Rightarrow> choice e user_agents w1)"

text \<open>
  \<^verbatim>\<open>get_random_user_agent\<close> of \<^verbatim>\<open>src/bot1.py\<close>. \<open>read_pool\<close> is the list
  comprehension over the lines of \<^verbatim>\<open>user_agents.txt\<close>; \<open>pick_user_agent\<close> is the code
  after the \<^verbatim>\<open>hasattr\<close> block; \<open>pool_attempt\<close> is the body of the \<^verbatim>\<open>try\<close>. The
  handler calls the library once more, and what that call raises leaves the method.
\<close>

definition read_pool :: "string list \<Rightarrow> string list" where
  "read_pool lines = map strip (filter (\<lambda>line. strip line \<noteq> []) lines)"

definition pick_user_agent :: "env \<Rightarrow> world \<Rightarrow> (exn + string) \<times> world" where
  "pick_user_agent e w =
     (case full_user_agents w of
        None \<Rightarrow> (Inl (AttributeError ''full_user_agents''), w)
      | Some pool \<Rightarrow> if pool \<noteq> [] then choice e pool w else ua_random e w)"

definition pool_attempt :: "env \<Rightarrow> world \<Rightarrow> (exn + string) \<times> world" where
  "pool_attempt e w =
     (case full_user_agents w of
        None \<Rightarrow>
          (case ua_file e of
             NoFile \<Rightarrow> ua_random e w
           | Unreadable \<Rightarrow> (Inl OSError, w)
           | Lines lines \<Rightarrow> pick_user_agent e (w\<lparr>full_user_agents := Some (read_pool lines)\<rparr>))
      | Some pool \<Rightarrow> pick_user_agent e w)"

definition get_random_user_agent_pool :: "env \<Rightarrow> world \<Rightarrow> (exn + string) \<times> world" where
  "get_random_user_agent_pool e w =
     (case pool_attempt e w of
        (Inr ua, w1) \<Rightarrow> (Inr ua, w1)
      | (Inl ex, w1) \<Rightarrow> ua_random e w1)"

definition get_random_user_agent :: "bot \<Rightarrow> env \<Rightarrow> world \<Rightarrow> (exn + string) \<times> world" where
  "get_random_user_agent b e w =
     (case source b of
        Bot1 \<Rightarrow> get_random_user_agent_pool e w
      | Bot_Bot1 \<Rightarrow> get_random_user_agent_builtin e w)"

text \<open>
  \<^verbatim>\<open>str\<close> of a non-negative integer, \<^verbatim>\<open>uuid.uuid4()\<close> from its 16 random bytes
  (the version and variant bits are set as \<^verbatim>\<open>UUID.__init__\<close> does), and
  \<^verbatim>\<open>str\<close> of a UUID: 32 lower-case hexadecimal digits in groups of 8, 4, 4, 4 and 12.
\<close>

definition digit_char :: "nat \<Rightarrow> char" where
  "digit_char n = ''0123456789'' ! n"

fun str_nat :: "nat \<Rightarrow> string" where
  "str_nat n = (if n < 10 then [digit_char n] else str_nat (n div 10) @ [digit_char (n mod 10)])"

declare str_nat.simps [simp del]

definition uuid4 :: "128 word \<Rightarrow> 128 word" where
  "uuid4 x =
     (((x AND NOT (push_bit 48 0xc000)) OR push_bit 48 0x8000) AND NOT (push_bit 64 0xf000))
       OR push_bit 76 4"

definition hex_digit :: "nat \<Rightarrow> char" where
  "hex_digit n = ''0123456789abcdef'' ! n"

definition hex32 :: "128 word \<Rightarrow> string" where
  "hex32 x = map (\<lambda>i. hex_digit (unat (drop_bit (4 * (31 - i)) x AND 15))) [0..<32]"

definition uuid_str :: "128 word \<Rightarrow> string" where
  "uuid_str x =
     (let h = hex32 x
      in take 8 h @ ''-'' @ take 4 (drop 8 h) @ ''-'' @ take 4 (drop 12 h) @ ''-''
           @ take 4 (drop 16 h) @ ''-'' @ drop 20 h)"

definition remove_dashes :: "string \<Rightarrow> string" where
  "remove_dashes s = filter (\<lambda>c. c \<noteq> CHR ''-'') s"

text \<open>
  \<^verbatim>\<open>get_game_id\<close>: nothing in its \<^verbatim>\<open>try\<close> raises (the account has the key
  \<^verbatim>\<open>name\<close>), so the handler that returns \<^verbatim>\<open>None\<close> is never entered.
  \<^verbatim>\<open>get_game_code\<close> passes the id on unless it is \<^verbatim>\<open>None\<close> or empty.
\<close>

definition get_game_id :: "env \<Rightarrow> account \<Rightarrow> world \<Rightarrow> string option \<times> world" where
  "get_game_id e a w =
     (let timestamp = clock_ms e (clock_reads w);
          random_part = take 8 (remove_dashes (uuid_str (uuid4 (uuid_bytes e (uuids w)))));
          game_id = str_nat timestamp @ ''_'' @ random_part
      in (Some game_id,
          logger INFO ''generated game id'' [name a, JStr game_id]
            (w\<lparr>clock_reads := Suc (clock_reads w), uuids := Suc (uuids w)\<rparr>)))"

definition get_game_code :: "env \<Rightarrow> account \<Rightarrow> world \<Rightarrow> string option \<times> world" where
  "get_game_code e a w =
     (case get_game_id e a w of
        (None, w1) \<Rightarrow> (None, logger WARNING ''cannot generate game id'' [name a] w1)
      | (Some game_id, w1) \<Rightarrow>
          if game_id = [] then (None, logger WARNING ''cannot generate game id'' [name a] w1)
          else (Some game_id, logger INFO ''using game id as game code'' [name a, JStr game_id] w1))"

section \<open>The two calls, a round, an account, a sweep\<close>

definition check_url :: string where
  "check_url = ''https://app.piggycell.io/api/trpc/piggyGame.checkGameCode?batch=1''"

definition record_url :: string where
  "record_url = ''https://app.piggycell.io/api/trpc/piggyGame.recordGameScore?batch=1''"

text \<open>The cookie header: the session token, and the extra cookies when there are any.\<close>

definition cookie_header :: "account \<Rightarrow> fragment list" where
  "cookie_header a =
     [Lit ''__Secure-authjs.session-token='', Val (session_token a)]
       @ (if truthy (cookies a) then [Lit ''; '', Val (cookies a)] else [])"

text \<open>
  What \<^verbatim>\<open>check_game_code\<close> and \<^verbatim>\<open>record_game_score\<close> share, line for line: the
  headers with a fresh user agent, the cookie, the proxy, and the POST. The result is the
  status code, or the exception raised on the way; a POST that was sent is in the trace
  with its outcome.
\<close>

definition send_post ::
  "bot \<Rightarrow> env \<Rightarrow> account \<Rightarrow> string \<Rightarrow> payload \<Rightarrow> world \<Rightarrow> (exn + nat) \<times> world" where
  "send_post b e a target data w =
     (case get_random_user_agent b e w of
        (Inl ex, w1) \<Rightarrow> (Inl ex, w1)
      | (Inr ua, w1) \<Rightarrow>
     (case get_random_proxy b e w1 of
        (Inl ex, w2) \<Rightarrow> (Inl ex, w2)
      | (Inr px, w2) \<Rightarrow>
          (let req = \<lparr>url = target, user_agent = ua, cookie = cookie_header a,
                      body = data, proxy = px\<rparr>;
               outcome = http e (posts w2) req;
               w3 = emit (Post req outcome) (w2\<lparr>posts := Suc (posts w2)\<rparr>)
           in case outcome of
                Response status \<Rightarrow> (Inr status, w3)
              | NetworkError \<Rightarrow> (Inl OSError, w3))))"

definition check_game_code :: "bot \<Rightarrow> env \<Rightarrow> account \<Rightarrow> string \<Rightarrow> world \<Rightarrow> bool \<times> world" where
  "check_game_code b e a game_code w =
     (case send_post b e a check_url (GameCode game_code) w of
        (Inr status, w1) \<Rightarrow>
          if status = 200 then (True, logger INFO ''game code verified'' [name a, JStr game_code] w1)
          else (False, logger ERROR ''game code verification failed, status code'' [name a, JInt (int status)] w1)
      | (Inl ex, w1) \<Rightarrow> (False, logger ERROR ''game code verification failed'' [name a] w1))"

definition record_game_score :: "bot \<Rightarrow> env \<Rightarrow> account \<Rightarrow> int \<Rightarrow> world \<Rightarrow> bool \<times> world" where
  "record_game_score b e a score w =
     (case send_post b e a record_url (Score score) w of
        (Inr status, w1) \<Rightarrow>
          if status = 200 then (True, logger INFO ''score recorded'' [name a, JInt score] w1)
          else (False, logger ERROR ''recording the score failed, status code'' [name a, JInt (int status)] w1)
      | (Inl ex, w1) \<Rightarrow> (False, logger ERROR ''recording the score failed'' [name a] w1))"

text \<open>\<^verbatim>\<open>self.config.get('game_settings', {}).get(key, default)\<close>.\<close>

definition game_setting :: "bot \<Rightarrow> string \<Rightarrow> json \<Rightarrow> exn + json" where
  "game_setting b key dflt =
     (case py_get (config b) ''game_settings'' (JObj []) of
        Inl ex \<Rightarrow> Inl ex
      | Inr gs \<Rightarrow> py_get gs key dflt)"

text \<open>
  \<^verbatim>\<open>play_single_game\<close>: code, check, score, record. Every exception inside ends in
  the handler, which logs and returns \<^verbatim>\<open>False\<close>.
\<close>

definition play_single_game :: "bot \<Rightarrow> env \<Rightarrow> account \<Rightarrow> int \<Rightarrow> world \<Rightarrow> bool \<times> world" where
  "play_single_game b e a game_round w =
     (case get_game_code e a (logger INFO ''round starts'' [name a, JInt game_round] w) of
        (None, w1) \<Rightarrow> (False, logger ERROR ''round: getting the code failed'' [name a, JInt game_round] w1)
      | (Some game_code, w1) \<Rightarrow>
          if game_code = [] then (False, logger ERROR ''round: getting the code failed'' [name a, JInt game_round] w1)
          else
     (case check_game_code b e a game_code w1 of
        (False, w2) \<Rightarrow> (False, logger ERROR ''round: game code verification failed'' [name a, JInt game_round] w2)
      | (True, w2) \<Rightarrow>
     (case game_setting b ''min_score'' (JInt 65) of
        Inl ex \<Rightarrow> (False, logger ERROR ''round failed'' [name a, JInt game_round] w2)
      | Inr min_score \<Rightarrow>
     (case game_setting b ''max_score'' (JInt 100) of
        Inl ex \<Rightarrow> (False, logger ERROR ''round failed'' [name a, JInt game_round] w2)
      | Inr max_score \<Rightarrow>
     (case randint e min_score max_score w2 of
        (Inl ex, w3) \<Rightarrow> (False, logger ERROR ''round failed'' [name a, JInt game_round] w3)
      | (Inr score, w3) \<Rightarrow>
     (case record_game_score b e a score
             (logger INFO ''round played, score drawn'' [name a, JInt game_round, JInt score] w3) of
        (True, w4) \<Rightarrow> (True, logger INFO ''round done'' [name a, JInt game_round] w4)
      | (False, w4) \<Rightarrow> (False, logger ERROR ''round: recording the score failed'' [name a, JInt game_round] w4)))))))"

text \<open>
  The loop of \<^verbatim>\<open>play_game\<close> over \<^verbatim>\<open>range(1, games_count + 1)\<close>, with the rounds
  still to play and \<^verbatim>\<open>success_count\<close>. A round that returns \<^verbatim>\<open>False\<close> breaks the
  loop; an exception (from \<^verbatim>\<open>time.sleep\<close>) leaves it for the handler of
  \<^verbatim>\<open>play_game\<close>.
\<close>

fun game_rounds ::
  "bot \<Rightarrow> env \<Rightarrow> account \<Rightarrow> int \<Rightarrow> int list \<Rightarrow> nat \<Rightarrow> world \<Rightarrow> (exn + nat) \<times> world" where
  "game_rounds b e a games_count [] success_count w = (Inr success_count, w)"
| "game_rounds b e a games_count (i # rest) success_count w =
     (case play_single_game b e a i w of
        (False, w1) \<Rightarrow> (Inr success_count, logger INFO ''no plays left, stopping'' [name a] w1)
      | (True, w1) \<Rightarrow>
          if i < games_count then
            (case game_setting b ''game_delay'' (JInt 1) of
               Inl ex \<Rightarrow> (Inl ex, w1)
             | Inr delay \<Rightarrow>
            (case sleep_arg delay of
               Inl ex \<Rightarrow>
                 (Inl ex, logger INFO ''waiting before the next round'' [name a, delay] w1)
             | Inr d \<Rightarrow>
                 game_rounds b e a games_count rest (Suc success_count)
                   (emit (Sleep GameDelay d)
                      (logger INFO ''waiting before the next round'' [name a, delay] w1))))
          else game_rounds b e a games_count rest (Suc success_count) w1)"

definition play_game :: "bot \<Rightarrow> env \<Rightarrow> account \<Rightarrow> world \<Rightarrow> bool \<times> world" where
  "play_game b e a w =
     (case game_setting b ''games_per_session'' (JInt 3) of
        Inl ex \<Rightarrow> (False, logger ERROR ''game failed'' [name a] w)
      | Inr gc \<Rightarrow>
     (case as_index gc of
        Inl ex \<Rightarrow>
          (False, logger ERROR ''game failed'' [name a]
                    (logger INFO ''starting the games'' [name a, gc] w))
      | Inr games_count \<Rightarrow>
     (case game_rounds b e a games_count [1..games_count] 0
             (logger INFO ''starting the games'' [name a, gc] w) of
        (Inl ex, w1) \<Rightarrow> (False, logger ERROR ''game failed'' [name a] w1)
      | (Inr success_count, w1) \<Rightarrow>
          (0 < success_count,
           logger INFO ''games finished'' [name a, gc, JInt (int success_count), gc] w1))))"

text \<open>
  \<^verbatim>\<open>play_all_accounts\<close>: nothing but a warning without accounts; otherwise each
  account in turn, and \<^verbatim>\<open>time.sleep(random.uniform(1, 3))\<close> after each.
\<close>

fun account_rounds :: "bot \<Rightarrow> env \<Rightarrow> account list \<Rightarrow> nat \<Rightarrow> world \<Rightarrow> nat \<times> world" where
  "account_rounds b e [] success_count w = (success_count, w)"
| "account_rounds b e (a # rest) success_count w =
     (case play_game b e a w of
        (ok, w1) \<Rightarrow>
     (case uniform e 1 3 w1 of
        (d, w2) \<Rightarrow>
          account_rounds b e rest (if ok then Suc success_count else success_count)
            (emit (Sleep AccountJitter d) w2)))"

definition play_all_accounts :: "bot \<Rightarrow> env \<Rightarrow> world \<Rightarrow> world" where
  "play_all_accounts b e w =
     (if accounts b = [] then logger WARNING ''no accounts found'' [] w
      else (case account_rounds b e (accounts b) 0
                   (logger INFO ''starting the sweep'' [JInt (int (length (accounts b)))] w) of
              (success_count, w1) \<Rightarrow>
                logger INFO ''sweep finished''
                  [JInt (int success_count), JInt (int (length (accounts b)))] w1))"

section \<open>The scheduler and the entry point\<close>

text \<open>
  \<^verbatim>\<open>schedule.every(interval).seconds.do(...)\<close> builds a \<^verbatim>\<open>timedelta\<close> from the
  interval, which takes a number of at most 999999999 days.
\<close>

definition schedule_every :: "json \<Rightarrow> exn + unit" where
  "schedule_every v =
     (case v of
        JInt n \<Rightarrow> if \<bar>n\<bar> \<le> 86400 * 999999999 then Inr () else Inl OverflowError
      | JBool b \<Rightarrow> Inr ()
      | JFloat r \<Rightarrow> if \<bar>r\<bar> \<le> 86400 * 999999999 then Inr () else Inl OverflowError
      | _ \<Rightarrow> Inl TypeError)"

text \<open>
  The loop \<^verbatim>\<open>while True: schedule.run_pending(); time.sleep(3)\<close> ends only with
  KeyboardInterrupt; \<open>polls\<close> is the number of polls before it arrives, \<open>k\<close> counts the
  polls done.
\<close>

fun poll_loop :: "bot \<Rightarrow> env \<Rightarrow> nat \<Rightarrow> nat \<Rightarrow> world \<Rightarrow> world" where
  "poll_loop b e 0 k w = logger INFO ''program stopped'' [] w"
| "poll_loop b e (Suc polls) k w =
     poll_loop b e polls (Suc k)
       (emit (Sleep SchedulerPoll 3) (if job_due e k then play_all_accounts b e w else w))"

definition run_scheduler :: "bot \<Rightarrow> env \<Rightarrow> nat \<Rightarrow> world \<Rightarrow> (raised + unit) \<times> world" where
  "run_scheduler b e polls w =
     (let w1 = play_all_accounts b e (logger INFO ''program started'' [] w)
      in case game_setting b ''session_interval'' (JInt 5) of
           Inl ex \<Rightarrow> (Inl (Exc ex), w1)
         | Inr interval \<Rightarrow>
        (case schedule_every interval of
           Inl ex \<Rightarrow> (Inl (Exc ex), w1)
         | Inr u \<Rightarrow>
             (Inr (), poll_loop b e polls 0
                        (logger INFO ''press Ctrl+C to stop'' []
                           (logger INFO ''scheduled'' [interval] w1)))))"

definition run_once :: "bot \<Rightarrow> env \<Rightarrow> world \<Rightarrow> (raised + unit) \<times> world" where
  "run_once b e w = (Inr (), play_all_accounts b e w)"

text \<open>
  \<^verbatim>\<open>main\<close>: the constructor, then one sweep (\<^verbatim>\<open>--once\<close>) or the scheduler. Nothing
  in \<^verbatim>\<open>main\<close> catches what the constructor raises. The exit status of the process is the
  argument of \<^verbatim>\<open>sys.exit\<close>, 1 after any other exception that nothing caught, and 0
  otherwise.
\<close>

definition main :: "source_file \<Rightarrow> bool \<Rightarrow> env \<Rightarrow> nat \<Rightarrow> world \<Rightarrow> (raised + unit) \<times> world" where
  "main src once e polls w =
     (case init src e w of
        (Inl r, w1) \<Rightarrow> (Inl r, w1)
      | (Inr b, w1) \<Rightarrow> if once then run_once b e w1 else run_scheduler b e polls w1)"

definition exit_status :: "raised + unit \<Rightarrow> int" where
  "exit_status r = (case r of Inr u \<Rightarrow> 0 | Inl (SystemExit n) \<Rightarrow> n | Inl (Exc ex) \<Rightarrow> 1)"

section \<open>Notions used in the statements\<close>

text \<open>
  The events a call adds to the trace, and a world in which nothing has happened yet.
\<close>

definition new_events :: "world \<Rightarrow> world \<Rightarrow> event list" where
  "new_events w w' = drop (length (trace w)) (trace w')"

definition fresh_world :: world where
  "fresh_world =
     \<lparr>posts = 0, draws = 0, uuids = 0, clock_reads = 0, ua_reads = 0,
      full_user_agents = None, trace = []\<rparr>"

text \<open>Decimal and lower-case hexadecimal digits, and the number a decimal string denotes.\<close>

definition is_digit :: "char \<Rightarrow> bool" where
  "is_digit c = (c \<in> set ''0123456789'')"

definition is_hex :: "char \<Rightarrow> bool" where
  "is_hex c = (c \<in> set ''0123456789abcdef'')"

definition digit_value :: "char \<Rightarrow> nat" where
  "digit_value c = of_char c - 48"

definition nat_of_digits :: "string \<Rightarrow> nat" where
  "nat_of_digits s = foldl (\<lambda>acc c. 10 * acc + digit_value c) 0 s"

text \<open>
  An entry of the accounts file: a JSON object, enabled when its \<^verbatim>\<open>enabled\<close> is absent
  or true in an \<^verbatim>\<open>if\<close>, and lacking a required key when it is enabled and has no
  \<^verbatim>\<open>name\<close> or no \<^verbatim>\<open>session_token\<close>.
\<close>

definition is_object :: "json \<Rightarrow> bool" where
  "is_object v = (case v of JObj kvs \<Rightarrow> True | _ \<Rightarrow> False)"

definition has_key :: "json \<Rightarrow> string \<Rightarrow> bool" where
  "has_key v key = (case v of JObj kvs \<Rightarrow> map_of kvs key \<noteq> None | _ \<Rightarrow> False)"

definition is_enabled :: "json \<Rightarrow> bool" where
  "is_enabled v =
     (case py_get v ''enabled'' (JBool True) of Inr en \<Rightarrow> truthy en | Inl ex \<Rightarrow> False)"

definition lacks_required_key :: "json \<Rightarrow> bool" where
  "lacks_required_key v =
     (is_enabled v \<and> (\<not> has_key v ''name'' \<or> \<not> has_key v ''session_token''))"

text \<open>Inputs for the examples: an environment, two entries of an accounts file.\<close>

definition example_config :: json where
  "example_config =
     JObj [(''log_level'', JStr ''INFO''),
           (''game_settings'',
            JObj [(''min_score'', JInt 65), (''max_score'', JInt 100),
                  (''games_per_session'', JInt 3), (''game_delay'', JInt 1),
                  (''session_interval'', JInt 3600)])]"

definition entry_complete :: json where
  "entry_complete = JObj [(''name'', JStr ''first''), (''session_token'', JStr ''t1'')]"

definition entry_without_token :: json where
  "entry_without_token = JObj [(''name'', JStr ''second''), (''enabled'', JBool True)]"

definition example_env :: env where
  "example_env =
     \<lparr>config_file = Parsed example_config,
      accounts_file = Parsed (JObj [(''accounts'', JList [entry_complete, entry_without_token])]),
      proxy_file = NoFile,
      ua_file = NoFile,
      ua_ctor = None,
      accepts_level = (\<lambda>nm. nm \<in> set [''DEBUG'', ''INFO'', ''WARNING'', ''ERROR'', ''CRITICAL'']),
      http = (\<lambda>k req. Response 200),
      raw_random = (\<lambda>k. 7),
      uuid_bytes = (\<lambda>k. 0),
      clock_ms = (\<lambda>k. 1700000000000 + k),
      fake_ua = (\<lambda>k. Inr ''Mozilla/5.0''),
      job_due = (\<lambda>k. False)\<rparr>"

definition malformed_accounts_env :: env where
  "malformed_accounts_env = example_env\<lparr>accounts_file := Malformed\<rparr>"

text \<open>
  For \<^verbatim>\<open>get_random_user_agent\<close> of \<^verbatim>\<open>src/bot1.py\<close>: the pool the method works
  with (the cached one, else the one it reads from the file), and what the library gives
  when it is asked again after raising once. Then bots and environments for the examples.
\<close>

definition pool_of :: "env \<Rightarrow> world \<Rightarrow> string list option" where
  "pool_of e w =
     (case full_user_agents w of
        Some pool \<Rightarrow> Some pool
      | None \<Rightarrow> (case ua_file e of Lines lines \<Rightarrow> Some (read_pool lines) | _ \<Rightarrow> None))"

definition library_answer :: "env \<Rightarrow> world \<Rightarrow> exn + string" where
  "library_answer e w =
     (case fake_ua e (ua_reads w) of
        Inr ua \<Rightarrow> Inr ua
      | Inl ex \<Rightarrow> fake_ua e (Suc (ua_reads w)))"

definition example_bot1 :: bot where
  "example_bot1 = \<lparr>source = Bot1, config = example_config, accounts = [], proxies = []\<rparr>"

definition example_bot_bot1 :: bot where
  "example_bot_bot1 = \<lparr>source = Bot_Bot1, config = example_config, accounts = [], proxies = []\<rparr>"

definition library_down :: "nat \<Rightarrow> exn + string" where
  "library_down k = Inl LibraryError"

definition offline_env :: env where
  "offline_env = example_env\<lparr>fake_ua := library_down\<rparr>"

definition pool_env :: env where
  "pool_env = offline_env\<lparr>ua_file := Lines [''  UA-one  '', '' '', ''UA-two'']\<rparr>"

definition unreadable_env :: env where
  "unreadable_env = example_env\<lparr>ua_file := Unreadable\<rparr>"

section \<open>Game codes\<close>

lemma digit_char_is_digit: "n < 10 \<Longrightarrow> is_digit (digit_char n)"
  unfolding digit_char_def is_digit_def by (rule nth_mem) simp

lemma digit_values: "list_all (\<lambda>n. digit_value (digit_char n) = n) [0..<10]"
  by (simp add: upt_conv_Cons digit_char_def digit_value_def)

lemma digit_value_digit_char: "n < 10 \<Longrightarrow> digit_value (digit_char n) = n"
  using digit_values by (simp add: list_all_iff)

lemma str_nat_digits: "list_all is_digit (str_nat n)"
  by (induction n rule: str_nat.induct) (subst str_nat.simps, simp add: digit_char_is_digit)

lemma str_nat_nonempty: "str_nat n \<noteq> []"
  by (subst str_nat.simps) simp

lemma nat_of_digits_str_nat: "nat_of_digits (str_nat n) = n"
  by (induction n rule: str_nat.induct)
     (subst str_nat.simps, simp add: nat_of_digits_def digit_value_digit_char)

lemma hex_digit_is_hex: "n < 16 \<Longrightarrow> is_hex (hex_digit n)"
  unfolding hex_digit_def is_hex_def by (rule nth_mem) simp

lemma nibble_bound: "unat ((x :: 128 word) AND 15) < 16"
  using word_and_le1 [of x 15] by (simp add: word_le_nat_alt)

lemma length_hex32: "length (hex32 x) = 32"
  by (simp add: hex32_def)

lemma hex32_is_hex: "list_all is_hex (hex32 x)"
  by (simp add: hex32_def list_all_iff hex_digit_is_hex nibble_bound)

lemma is_hex_not_dash: "is_hex c \<Longrightarrow> c \<noteq> CHR ''-''"
  by (auto simp: is_hex_def)

lemma remove_dashes_hex: "list_all is_hex s \<Longrightarrow> remove_dashes s = s"
  by (induction s) (auto simp: remove_dashes_def is_hex_not_dash)

lemma remove_dashes_append: "remove_dashes (s @ t) = remove_dashes s @ remove_dashes t"
  by (simp add: remove_dashes_def)

lemma list_all_take: "list_all P xs \<Longrightarrow> list_all P (take n xs)"
  by (auto simp: list_all_iff dest: in_set_takeD)

text \<open>Without its dashes, the text of a UUID begins with the first 8 of its 32 digits.\<close>

lemma take8_remove_dashes_uuid_str: "take 8 (remove_dashes (uuid_str x)) = take 8 (hex32 x)"
proof -
  have h: "list_all is_hex (hex32 x)" by (rule hex32_is_hex)
  have "remove_dashes (uuid_str x) =
        take 8 (hex32 x) @
        remove_dashes (''-'' @ take 4 (drop 8 (hex32 x)) @ ''-'' @ take 4 (drop 12 (hex32 x))
          @ ''-'' @ take 4 (drop 16 (hex32 x)) @ ''-'' @ drop 20 (hex32 x))"
    unfolding uuid_str_def Let_def remove_dashes_append
    by (simp add: remove_dashes_hex list_all_take h)
  then show ?thesis by (simp add: length_hex32)
qed

lemma random_part_form:
  "length (take 8 (remove_dashes (uuid_str x))) = 8
   \<and> list_all is_hex (take 8 (remove_dashes (uuid_str x)))"
  by (simp add: take8_remove_dashes_uuid_str length_hex32 list_all_take hex32_is_hex)

text \<open>
  C5. Every game code that \<^verbatim>\<open>get_game_id\<close> and \<^verbatim>\<open>get_game_code\<close> produce is the
  decimal digits of the millisecond timestamp read from the clock, an underscore, and exactly
  8 hexadecimal characters; both always return a code, never \<^verbatim>\<open>None\<close>.
\<close>

theorem game_code_form:
  "\<exists>hs w1 w2.
     get_game_id e a w = (Some (str_nat (clock_ms e (clock_reads w)) @ ''_'' @ hs), w1)
     \<and> get_game_code e a w = (Some (str_nat (clock_ms e (clock_reads w)) @ ''_'' @ hs), w2)
     \<and> str_nat (clock_ms e (clock_reads w)) \<noteq> []
     \<and> list_all is_digit (str_nat (clock_ms e (clock_reads w)))
     \<and> nat_of_digits (str_nat (clock_ms e (clock_reads w))) = clock_ms e (clock_reads w)
     \<and> length hs = 8 \<and> list_all is_hex hs"
  using random_part_form [of "uuid4 (uuid_bytes e (uuids w))"]
  by (simp add: get_game_code_def get_game_id_def Let_def str_nat_nonempty str_nat_digits
                nat_of_digits_str_nat)

section \<open>The accounts file\<close>

lemma collect_accounts_KeyError:
  "list_all is_object items \<Longrightarrow> list_ex lacks_required_key items \<Longrightarrow>
   \<exists>k. collect_accounts items accs = Inl (KeyError k)"
proof (induction items arbitrary: accs)
  case Nil
  then show ?case by simp
next
  case (Cons x xs)
  from Cons.prems(1) have ox: "is_object x" and objs: "list_all is_object xs"
    by simp_all
  from ox obtain kvs where x: "x = JObj kvs"
    by (cases x) (simp_all add: is_object_def)
  show ?case
  proof (cases "lacks_required_key x")
    case True
    then show ?thesis
      by (auto simp: x lacks_required_key_def is_enabled_def has_key_def py_get_def py_item_def
               split: option.splits)
  next
    case False
    with Cons.prems(2) have "list_ex lacks_required_key xs" by simp
    from Cons.IH [OF objs this]
    have ih: "\<And>accs. \<exists>k. collect_accounts xs accs = Inl (KeyError k)"
      by blast
    show ?thesis
      using ih by (auto simp: x py_get_def py_item_def split: option.splits)
  qed
qed

text \<open>
  C10. When the accounts file is a JSON object whose \<^verbatim>\<open>accounts\<close> is a list of
  objects, and one enabled entry lacks \<^verbatim>\<open>name\<close> or \<^verbatim>\<open>session_token\<close>,
  \<^verbatim>\<open>load_accounts\<close> catches the KeyError, prints its warning and returns the empty
  list: the entries before the faulty one are lost too.
\<close>

theorem load_accounts_missing_key_discards_all:
  assumes "accounts_file e = Parsed (JObj obj)"
    and "map_of obj ''accounts'' = Some (JList items)"
    and "list_all is_object items"
    and "list_ex lacks_required_key items"
  shows "load_accounts e w = (Inr [], emit (Print ''warning: accounts file format error'') w)"
proof -
  from collect_accounts_KeyError [OF assms(3,4)]
  obtain k where "collect_accounts items [] = Inl (KeyError k)" by blast
  then show ?thesis
    using assms(1,2) by (simp add: load_accounts_def py_get_def py_iter_def)
qed

theorem load_accounts_missing_key_discards_all_witness:
  "accounts_file example_env
     = Parsed (JObj [(''accounts'', JList [entry_complete, entry_without_token])])
   \<and> map_of [(''accounts'', JList [entry_complete, entry_without_token])] ''accounts''
     = Some (JList [entry_complete, entry_without_token])
   \<and> list_all is_object [entry_complete, entry_without_token]
   \<and> list_ex lacks_required_key [entry_complete, entry_without_token]
   \<and> collect_accounts [entry_complete] []
     = Inr [\<lparr>name = JStr ''first'', session_token = JStr ''t1'', cookies = JStr [],
             description = JStr []\<rparr>]
   \<and> load_accounts example_env fresh_world
     = (Inr [], emit (Print ''warning: accounts file format error'') fresh_world)"
proof -
  have 1: "accounts_file example_env
             = Parsed (JObj [(''accounts'', JList [entry_complete, entry_without_token])])"
    by (simp add: example_env_def)
  have 2: "map_of [(''accounts'', JList [entry_complete, entry_without_token])] ''accounts''
             = Some (JList [entry_complete, entry_without_token])"
    by simp
  have 3: "list_all is_object [entry_complete, entry_without_token]"
    by (simp add: is_object_def entry_complete_def entry_without_token_def)
  have 4: "list_ex lacks_required_key [entry_complete, entry_without_token]"
    by (simp add: lacks_required_key_def is_enabled_def has_key_def py_get_def truthy_def
                  entry_complete_def entry_without_token_def)
  have 5: "collect_accounts [entry_complete] []
             = Inr [\<lparr>name = JStr ''first'', session_token = JStr ''t1'', cookies = JStr [],
                     description = JStr []\<rparr>]"
    by (simp add: entry_complete_def py_get_def py_item_def truthy_def)
  from load_accounts_missing_key_discards_all [OF 1 2 3 4, of fresh_world] 1 2 3 4 5
  show ?thesis by simp
qed

section \<open>Start-up\<close>

lemma new_events_append: "trace w' = trace w @ evs \<Longrightarrow> new_events w w' = evs"
  by (simp add: new_events_def)

lemma load_proxies_trace:
  "load_proxies e w = (r, w') \<Longrightarrow>
   trace w' = trace w \<or> trace w' = trace w @ [Print ''warning: proxy.txt does not exist'']"
  by (auto simp: load_proxies_def emit_def split: text_file.splits)

text \<open>
  C9. With a malformed accounts file (invalid JSON), \<^verbatim>\<open>load_accounts\<close> prints its
  warning and returns the empty list; the constructor goes on, and a bot it builds has no
  accounts, so that the sweep logs the warning that no accounts were found and returns, and
  \<^verbatim>\<open>main\<close> with \<^verbatim>\<open>--once\<close> ends normally.
\<close>

theorem malformed_accounts_file:
  assumes "accounts_file e = Malformed"
  shows "load_accounts e w = (Inr [], emit (Print ''warning: accounts file format error'') w)
     \<and> (\<forall>b w1. init src e w = (Inr b, w1) \<longrightarrow>
           accounts b = []
           \<and> Print ''warning: accounts file format error'' \<in> set (new_events w w1)
           \<and> play_all_accounts b e w1 = logger WARNING ''no accounts found'' [] w1
           \<and> main src True e polls w = (Inr (), logger WARNING ''no accounts found'' [] w1))"
proof -
  have la: "load_accounts e w = (Inr [], emit (Print ''warning: accounts file format error'') w)"
    using assms by (simp add: load_accounts_def)
  have "accounts b = []
           \<and> Print ''warning: accounts file format error'' \<in> set (new_events w w1)
           \<and> play_all_accounts b e w1 = logger WARNING ''no accounts found'' [] w1
           \<and> main src True e polls w = (Inr (), logger WARNING ''no accounts found'' [] w1)"
    if i: "init src e w = (Inr b, w1)" for b w1
  proof -
    from i obtain cfg where lc: "load_config False e w = (Inr cfg, w)"
      by (auto simp: init_def load_config_def split: json_file.splits)
    from i lc la obtain prx where
      lp: "load_proxies e (emit (Print ''warning: accounts file format error'') w) = (Inr prx, w1)"
      and b: "b = \<lparr>source = src, config = cfg, accounts = [], proxies = prx\<rparr>"
      by (auto simp: init_def split: prod.splits sum.splits option.splits)
    from load_proxies_trace [OF lp]
    have "Print ''warning: accounts file format error'' \<in> set (new_events w w1)"
      by (auto simp: emit_def new_events_def)
    moreover have "play_all_accounts b e w1 = logger WARNING ''no accounts found'' [] w1"
      by (simp add: b play_all_accounts_def)
    ultimately show ?thesis
      using i by (simp add: b main_def run_once_def)
  qed
  with la show ?thesis by blast
qed

theorem malformed_accounts_file_witness:
  "accounts_file malformed_accounts_env = Malformed
   \<and> init Bot1 malformed_accounts_env fresh_world
       = (Inr \<lparr>source = Bot1, config = example_config, accounts = [], proxies = []\<rparr>,
          fresh_world\<lparr>trace := [Print ''warning: accounts file format error'',
                                 Print ''warning: proxy.txt does not exist'']\<rparr>)
   \<and> main Bot1 True malformed_accounts_env 0 fresh_world
       = (Inr (),
          fresh_world\<lparr>trace := [Print ''warning: accounts file format error'',
                                 Print ''warning: proxy.txt does not exist'',
                                 Log WARNING ''no accounts found'' []]\<rparr>)"
proof -
  have a: "accounts_file malformed_accounts_env = Malformed"
    by (simp add: malformed_accounts_env_def)
  have i: "init Bot1 malformed_accounts_env fresh_world
       = (Inr \<lparr>source = Bot1, config = example_config, accounts = [], proxies = []\<rparr>,
          fresh_world\<lparr>trace := [Print ''warning: accounts file format error'',
                                 Print ''warning: proxy.txt does not exist'']\<rparr>)"
    by (simp add: init_def load_config_def load_accounts_def load_proxies_def setup_logging_def
                  py_get_def malformed_accounts_env_def example_env_def example_config_def
                  fresh_world_def emit_def)
  from malformed_accounts_file [OF a, of fresh_world Bot1 0] i a
  show ?thesis by (simp add: logger_def emit_def fresh_world_def)
qed

text \<open>
  C6. With a missing or malformed config file the constructor does not reach
  \<^verbatim>\<open>sys.exit(1)\<close>: the handler of \<^verbatim>\<open>load_config\<close> reads \<^verbatim>\<open>self.logger\<close>
  before \<^verbatim>\<open>setup_logging\<close> has created it, and the AttributeError leaves the
  constructor and \<^verbatim>\<open>main\<close>. Nothing is logged and no sweep runs; the exit status is
  1 all the same, as for any exception that nothing catches. Had the logger existed,
  \<^verbatim>\<open>load_config\<close> would have raised SystemExit 1.
\<close>

theorem config_failure_skips_sys_exit:
  "main src once (e\<lparr>config_file := Missing\<rparr>) polls w = (Inl (Exc (AttributeError ''logger'')), w)
   \<and> main src once (e\<lparr>config_file := Malformed\<rparr>) polls w
       = (Inl (Exc (AttributeError ''logger'')), w)
   \<and> fst (main src once (e\<lparr>config_file := Missing\<rparr>) polls w) \<noteq> Inl (SystemExit 1)
   \<and> fst (main src once (e\<lparr>config_file := Malformed\<rparr>) polls w) \<noteq> Inl (SystemExit 1)
   \<and> exit_status (fst (main src once (e\<lparr>config_file := Missing\<rparr>) polls w)) = 1
   \<and> fst (load_config True (e\<lparr>config_file := Missing\<rparr>) w) = Inl (SystemExit 1)"
  by (simp add: main_def init_def load_config_def exit_status_def)

section \<open>User agents\<close>

lemma choice_member: "xs \<noteq> [] \<Longrightarrow> \<exists>x w'. choice e xs w = (Inr x, w') \<and> x \<in> set xs"
  by (simp add: choice_def)

lemma user_agents_nonempty: "user_agents \<noteq> []"
  by (simp add: user_agents_def)

lemma strip_examples:
  "strip ''  UA-one  '' = ''UA-one''" "strip '' '' = []" "strip ''UA-two'' = ''UA-two''"
  by (simp_all add: strip_def is_space_def)

lemma pool_example: "read_pool [''  UA-one  '', '' '', ''UA-two''] = [''UA-one'', ''UA-two'']"
  by (simp add: read_pool_def strip_examples)

text \<open>
  C8 as stated fails for \<^verbatim>\<open>src/bot1.py\<close>: without \<^verbatim>\<open>user_agents.txt\<close> the method
  returns what \<^verbatim>\<open>fake_useragent\<close> gives, which need not be in the built-in list (that
  file has none), and it raises when the library raises twice.
\<close>

theorem get_random_user_agent_counterexample:
  "ua_file example_env = NoFile
   \<and> fst (get_random_user_agent example_bot1 example_env fresh_world) = Inr ''Mozilla/5.0''
   \<and> ''Mozilla/5.0'' \<notin> set user_agents
   \<and> ua_file offline_env = NoFile
   \<and> fst (get_random_user_agent example_bot1 offline_env fresh_world) = Inl LibraryError"
  by (simp add: get_random_user_agent_def get_random_user_agent_pool_def pool_attempt_def
                ua_random_def example_bot1_def example_env_def offline_env_def library_down_def
                fresh_world_def user_agents_def)

text \<open>
  C8, amended. In \<^verbatim>\<open>src/bot/bot1.py\<close> the method never raises: it returns the
  library's answer, or a string of the built-in list when the library raises. In
  \<^verbatim>\<open>src/bot1.py\<close> it returns a string of the pool when the pool is not empty; with an
  empty pool or without the file it returns the library's answer, asking a second time
  when the first call raises, and raises when that call raises; with an unreadable file it
  asks the library once.
\<close>

theorem get_random_user_agent_sources:
  "(source b = Bot_Bot1 \<longrightarrow>
      (\<exists>ua w'. get_random_user_agent b e w = (Inr ua, w')
         \<and> (fake_ua e (ua_reads w) = Inr ua
            \<or> (\<exists>ex. fake_ua e (ua_reads w) = Inl ex) \<and> ua \<in> set user_agents)))
   \<and> (source b = Bot1 \<longrightarrow> pool_of e w = Some pool \<longrightarrow> pool \<noteq> [] \<longrightarrow>
      (\<exists>ua w'. get_random_user_agent b e w = (Inr ua, w') \<and> ua \<in> set pool))
   \<and> (source b = Bot1 \<longrightarrow> (pool_of e w = Some [] \<or> pool_of e w = None \<and> ua_file e = NoFile) \<longrightarrow>
      fst (get_random_user_agent b e w) = library_answer e w)
   \<and> (source b = Bot1 \<longrightarrow> pool_of e w = None \<longrightarrow> ua_file e = Unreadable \<longrightarrow>
      fst (get_random_user_agent b e w) = fake_ua e (ua_reads w))"
proof (intro conjI impI)
  assume "source b = Bot_Bot1"
  then show "\<exists>ua w'. get_random_user_agent b e w = (Inr ua, w')
         \<and> (fake_ua e (ua_reads w) = Inr ua
            \<or> (\<exists>ex. fake_ua e (ua_reads w) = Inl ex) \<and> ua \<in> set user_agents)"
    using choice_member [OF user_agents_nonempty, of e "w\<lparr>ua_reads := Suc (ua_reads w)\<rparr>"]
    by (cases "fake_ua e (ua_reads w)")
       (auto simp: get_random_user_agent_def get_random_user_agent_builtin_def ua_random_def)
next
  assume s: "source b = Bot1" and p: "pool_of e w = Some pool" and ne: "pool \<noteq> []"
  show "\<exists>ua w'. get_random_user_agent b e w = (Inr ua, w') \<and> ua \<in> set pool"
  proof (cases "full_user_agents w")
    case None
    with p obtain lines where f: "ua_file e = Lines lines" and pl: "pool = read_pool lines"
      by (auto simp: pool_of_def split: text_file.splits)
    from choice_member [OF ne, of e "w\<lparr>full_user_agents := Some pool\<rparr>"]
    show ?thesis
      using s None f pl ne
      by (auto simp: get_random_user_agent_def get_random_user_agent_pool_def pool_attempt_def
                     pick_user_agent_def)
  next
    case (Some q)
    with p have q: "q = pool" by (simp add: pool_of_def)
    from choice_member [OF ne, of e w]
    show ?thesis
      using s Some q ne
      by (auto simp: get_random_user_agent_def get_random_user_agent_pool_def pool_attempt_def
                     pick_user_agent_def)
  qed
next
  assume s: "source b = Bot1"
    and p: "pool_of e w = Some [] \<or> pool_of e w = None \<and> ua_file e = NoFile"
  then show "fst (get_random_user_agent b e w) = library_answer e w"
    by (cases "fake_ua e (ua_reads w)")
       (auto simp: get_random_user_agent_def get_random_user_agent_pool_def pool_attempt_def
                   pick_user_agent_def ua_random_def library_answer_def pool_of_def
             split: option.splits text_file.splits)
next
  assume s: "source b = Bot1" and p: "pool_of e w = None" and u: "ua_file e = Unreadable"
  then show "fst (get_random_user_agent b e w) = fake_ua e (ua_reads w)"
    by (auto simp: get_random_user_agent_def get_random_user_agent_pool_def pool_attempt_def
                   ua_random_def pool_of_def split: option.splits)
qed


theorem get_random_user_agent_sources_witness:
  "source example_bot_bot1 = Bot_Bot1
   \<and> (\<exists>ua w'. get_random_user_agent example_bot_bot1 offline_env fresh_world = (Inr ua, w')
         \<and> ua \<in> set user_agents)
   \<and> source example_bot1 = Bot1
   \<and> pool_of pool_env fresh_world = Some [''UA-one'', ''UA-two'']
   \<and> (\<exists>ua w'. get_random_user_agent example_bot1 pool_env fresh_world = (Inr ua, w')
         \<and> ua \<in> set [''UA-one'', ''UA-two''])
   \<and> pool_of example_env fresh_world = None \<and> ua_file example_env = NoFile
   \<and> fst (get_random_user_agent example_bot1 example_env fresh_world) = Inr ''Mozilla/5.0''
   \<and> pool_of unreadable_env fresh_world = None \<and> ua_file unreadable_env = Unreadable
   \<and> fst (get_random_user_agent example_bot1 unreadable_env fresh_world) = Inr ''Mozilla/5.0''"
proof -
  have s1: "source example_bot_bot1 = Bot_Bot1" by (simp add: example_bot_bot1_def)
  have s2: "source example_bot1 = Bot1" by (simp add: example_bot1_def)
  have f: "fake_ua offline_env (ua_reads fresh_world) = Inl LibraryError"
    by (simp add: offline_env_def library_down_def)
  have p2: "pool_of pool_env fresh_world = Some [''UA-one'', ''UA-two'']"
    by (simp add: pool_of_def pool_env_def fresh_world_def pool_example)
  have p3: "pool_of example_env fresh_world = None" "ua_file example_env = NoFile"
    by (simp_all add: pool_of_def example_env_def fresh_world_def)
  have p4: "pool_of unreadable_env fresh_world = None" "ua_file unreadable_env = Unreadable"
    by (simp_all add: pool_of_def unreadable_env_def fresh_world_def)
  have l3: "library_answer example_env fresh_world = Inr ''Mozilla/5.0''"
    by (simp add: library_answer_def example_env_def fresh_world_def)
  have l4: "fake_ua unreadable_env (ua_reads fresh_world) = Inr ''Mozilla/5.0''"
    by (simp add: unreadable_env_def example_env_def)
  from get_random_user_agent_sources [of example_bot_bot1 offline_env fresh_world] s1 f
  have c1: "\<exists>ua w'. get_random_user_agent example_bot_bot1 offline_env fresh_world = (Inr ua, w')
         \<and> ua \<in> set user_agents"
    by auto
  from get_random_user_agent_sources [of example_bot1 pool_env fresh_world "[''UA-one'', ''UA-two'']"]
    s2 p2
  have c2: "\<exists>ua w'. get_random_user_agent example_bot1 pool_env fresh_world = (Inr ua, w')
         \<and> ua \<in> set [''UA-one'', ''UA-two'']"
    by simp
  from get_random_user_agent_sources [of example_bot1 example_env fresh_world] s2 p3 l3
  have c3: "fst (get_random_user_agent example_bot1 example_env fresh_world) = Inr ''Mozilla/5.0''"
    by simp
  from get_random_user_agent_sources [of example_bot1 unreadable_env fresh_world] s2 p4 l4
  have c4: "fst (get_random_user_agent example_bot1 unreadable_env fresh_world) = Inr ''Mozilla/5.0''"
    by simp
  from s1 s2 p2 p3 p4 c1 c2 c3 c4 show ?thesis by blast
qed

end
